theory Spec2Isabelle
  imports Complex_Main "HOL-Library.Word"
begin

section \<open>The order endpoint \<^verbatim>\<open>app/api/orders/[id]/route.ts\<close>\<close>

text \<open>
  The file exports two handlers, \<^verbatim>\<open>GET\<close> and \<^verbatim>\<open>PUT\<close>. Both talk to a relational
  database through \<^verbatim>\<open>executeQuery\<close>; \<^verbatim>\<open>PUT\<close> also validates its body with
  \<^verbatim>\<open>orderUpdateSchema.safeParse\<close> and calls \<^verbatim>\<open>revalidateTag\<close>. The embedding passes
  the world (database, the statements issued so far, the cache tags invalidated, the
  console) explicitly, and turns every \<^verbatim>\<open>throw\<close> into a value.
\<close>

subsection \<open>JavaScript values\<close>

text \<open>
  A JavaScript string is a sequence of 16-bit code units. \<open>js\<close> embeds an Isabelle
  string literal, code unit by code unit.
\<close>

type_synonym jsstring = "16 word list"

definition js :: "string \<Rightarrow> jsstring" where
  "js s = map (\<lambda>c. of_nat (of_char c)) s"

text \<open>
  A JavaScript number. Finite values are kept exact (the rounding of binary64 is not
  modelled, and \<open>-0\<close> is identified with \<open>0\<close>); \<open>Infinity b\<close> is
  \<open>+Infinity\<close> when \<open>b\<close> holds and \<open>-Infinity\<close> otherwise.
\<close>

datatype jsnum = NaN | Finite rat | Infinity bool

text \<open>
  The values that a row delivered by the query layer, or a field of the validated
  payload, can hold: the primitives and \<^verbatim>\<open>Date\<close> objects (by their time value in
  milliseconds).
\<close>

datatype jsval =
    JUndefined
  | JNull
  | JBool bool
  | JNum jsnum
  | JStr jsstring
  | JDate int

text \<open>\<^verbatim>\<open>ToBoolean\<close>: the falsy values are undefined, null, false, 0, NaN and the empty string.\<close>

fun truthy :: "jsval \<Rightarrow> bool" where
  "truthy JUndefined = False"
| "truthy JNull = False"
| "truthy (JBool b) = b"
| "truthy (JNum NaN) = False"
| "truthy (JNum (Finite q)) = (q \<noteq> 0)"
| "truthy (JNum (Infinity b)) = True"
| "truthy (JStr s) = (s \<noteq> [])"
| "truthy (JDate t) = True"

text \<open>\<^verbatim>\<open>a && b\<close> evaluates to \<open>a\<close> when \<open>a\<close> is falsy and to \<open>b\<close> otherwise.\<close>

definition js_and :: "jsval \<Rightarrow> jsval \<Rightarrow> jsval" where
  "js_and a b = (if truthy a then b else a)"

text \<open>
  \<^verbatim>\<open>Number(v)\<close>. The conversion of a string (\<^verbatim>\<open>StringToNumber\<close> of the language) is a
  parameter: every result below holds whatever number or \<open>NaN\<close> it yields.
\<close>

fun Number :: "(jsstring \<Rightarrow> jsnum) \<Rightarrow> jsval \<Rightarrow> jsnum" where
  "Number str2num JUndefined = NaN"
| "Number str2num JNull = Finite 0"
| "Number str2num (JBool b) = Finite (if b then 1 else 0)"
| "Number str2num (JNum n) = n"
| "Number str2num (JStr s) = str2num s"
| "Number str2num (JDate t) = Finite (of_int t)"

text \<open>\<^verbatim>\<open>typeof v === "number"\<close>.\<close>

fun is_number :: "jsval \<Rightarrow> bool" where
  "is_number (JNum n) = True"
| "is_number v = False"

subsection \<open>\<^verbatim>\<open>Number.parseInt(s, 10)\<close>\<close>

text \<open>
  The white space that \<^verbatim>\<open>parseInt\<close> skips at the start of its input: the language's
  \<^verbatim>\<open>WhiteSpace\<close> (tab, VT, FF, the byte order mark and the space separators of
  Unicode) and \<^verbatim>\<open>LineTerminator\<close> (LF, CR, LS, PS).
\<close>

definition StrWhiteSpaceChar :: "16 word \<Rightarrow> bool" where
  "StrWhiteSpaceChar c =
     (c \<in> set [0x9, 0xA, 0xB, 0xC, 0xD, 0x20, 0xA0, 0x1680, 0x2028, 0x2029,
                0x202F, 0x205F, 0x3000, 0xFEFF]
      \<or> (0x2000 \<le> c \<and> c \<le> 0x200A))"

definition is_digit :: "16 word \<Rightarrow> bool" where
  "is_digit c = (0x30 \<le> c \<and> c \<le> 0x39)"

definition digit_val :: "16 word \<Rightarrow> int" where
  "digit_val c = int (unat c) - 48"

text \<open>
  \<^verbatim>\<open>parseInt\<close> with radix 10: skip leading white space, read an optional sign, take
  the longest run of decimal digits and ignore whatever follows. No digit gives
  \<open>NaN\<close>, which is \<open>None\<close> here; \<open>isNaN(id)\<close> of the handlers is the test for
  \<open>None\<close>. The integer is exact (a run of more than about 16 digits is rounded by
  the language; the handlers only test the result for \<open>NaN\<close> and pass it on).
\<close>

definition parseInt10 :: "jsstring \<Rightarrow> int option" where
  "parseInt10 inputString =
     (let S = dropWhile StrWhiteSpaceChar inputString;
          sign = (if S \<noteq> [] \<and> hd S = 0x2D then - 1 else 1);
          S' = (if S \<noteq> [] \<and> (hd S = 0x2B \<or> hd S = 0x2D) then tl S else S);
          Z = takeWhile is_digit S'
      in if Z = [] then None
         else Some (sign * foldl (\<lambda>a c. 10 * a + digit_val c) 0 Z))"

subsection \<open>The database\<close>

text \<open>
  One record per table or view named in the SQL of the handlers, with the columns the
  SQL names. A cell holds the value as the query layer reads and writes it; the
  conversions of the database engine between column types are not modelled. A table is
  the list of its rows.
\<close>

record pedido =
  p_id :: jsval
  p_order_number :: jsval
  p_status :: jsval
  p_created_at :: jsval
  p_notes :: jsval
  p_customer_id :: jsval
  p_destination_id :: jsval
  p_invoice_series :: jsval
  p_invoice_number :: jsval
  p_invoice_n :: jsval
  p_total :: jsval
  p_updated_at :: jsval

record cliente =
  c_id :: jsval
  c_name :: jsval
  c_rfc :: jsval

record destino =
  d_id :: jsval
  d_name :: jsval

record factura =
  f_NUMSERIE :: jsval
  f_NUMFACTURA :: jsval
  f_N :: jsval

record pedido_item =
  i_id :: jsval
  i_order_id :: jsval
  i_product_id :: jsval
  i_quantity :: jsval
  i_price_per_unit :: jsval
  i_unit :: jsval

record producto =
  prod_id :: jsval
  prod_name :: jsval
  prod_unit :: jsval

record pedido_camion =
  pc_pedido_id :: jsval
  pc_camion_id :: jsval

record camion =
  t_id :: jsval
  t_placa :: jsval
  t_brand :: jsval
  t_model :: jsval

record pedido_chofer =
  pch_pedido_id :: jsval
  pch_chofer_id :: jsval

record chofer =
  ch_id :: jsval
  ch_name :: jsval
  ch_docId :: jsval

text \<open>
  \<open>GETDATE\<close> is the clock of the database. The \<^verbatim>\<open>INSERT\<close> into
  \<^verbatim>\<open>RIP.APP_PEDIDOS_ITEMS\<close> does not supply the \<open>id\<close> column that \<^verbatim>\<open>GET\<close> reads, so the
  database assigns it: \<open>item_id_of n\<close> is the id given to the \<open>n\<close>-th item row
  ever inserted, and \<open>items_inserted\<close> counts them. Nothing is assumed about
  \<open>item_id_of\<close>.
\<close>

record database =
  APP_PEDIDOS :: "pedido list"
  VW_APP_CLIENTES :: "cliente list"
  APP_DESTINOS :: "destino list"
  FACTURASVENTA :: "factura list"
  APP_PEDIDOS_ITEMS :: "pedido_item list"
  VW_APP_PRODUCTOS :: "producto list"
  APP_PEDIDOS_CAMIONES :: "pedido_camion list"
  APP_CAMIONES :: "camion list"
  APP_PEDIDOS_CHOFERES :: "pedido_chofer list"
  APP_CHOFERES :: "chofer list"
  GETDATE :: jsval
  item_id_of :: "nat \<Rightarrow> jsval"
  items_inserted :: nat

text \<open>The parameter \<^verbatim>\<open>{ name: "id", type: TYPES.Int, value: id }\<close>.\<close>

definition Int_param :: "int \<Rightarrow> jsval" where
  "Int_param n = JNum (Finite (of_int n))"

text \<open>
  SQL's \<open>=\<close> in a \<^verbatim>\<open>WHERE\<close> or \<^verbatim>\<open>ON\<close> clause: never true when a side is
  \<^verbatim>\<open>NULL\<close>. (Strings are compared code unit by code unit; the collation of the
  database is not modelled.)
\<close>

definition sql_null :: "jsval \<Rightarrow> bool" where
  "sql_null v = (v = JNull \<or> v = JUndefined)"

definition sql_eq :: "jsval \<Rightarrow> jsval \<Rightarrow> bool" where
  "sql_eq a b = (\<not> sql_null a \<and> \<not> sql_null b \<and> a = b)"

text \<open>\<^verbatim>\<open>LEFT JOIN\<close>: the matching rows, or one absent row when none matches.\<close>

definition left_join :: "('r \<Rightarrow> bool) \<Rightarrow> 'r list \<Rightarrow> 'r option list" where
  "left_join on rows = (case filter on rows of [] \<Rightarrow> [None] | ms \<Rightarrow> map Some ms)"

definition column :: "('r \<Rightarrow> jsval) \<Rightarrow> 'r option \<Rightarrow> jsval" where
  "column col r = (case r of None \<Rightarrow> JNull | Some x \<Rightarrow> col x)"

subsection \<open>The payload of \<^verbatim>\<open>PUT\<close>\<close>

text \<open>
  Modelled from the spec: \<^verbatim>\<open>orderUpdateSchema\<close> lives in \<^verbatim>\<open>@/lib/validations\<close>, which is
  not among the sources. The spec gives the shape of the data it yields: the header
  fields \<open>customer_id\<close>, \<open>destination_id\<close>, \<open>total\<close>, \<open>invoice_series\<close>,
  \<open>invoice_number\<close>, \<open>invoice_n\<close>, a list of items (\<open>product_id\<close>, \<open>quantity\<close>,
  \<open>price_per_unit\<close>, \<open>unit\<close>), a list of truck ids and a list of driver ids. The
  handler destructures it into \<open>items\<close>, \<open>truck_ids\<close>, \<open>driver_ids\<close> and the rest,
  \<open>orderData\<close>: the record \<open>validated\<close> extends \<open>orderData\<close> by the three lists.
\<close>

record item_input =
  in_product_id :: jsval
  in_quantity :: jsval
  in_price_per_unit :: jsval
  in_unit :: jsval

record orderData =
  u_customer_id :: jsval
  u_destination_id :: jsval
  u_total :: jsval
  u_invoice_series :: jsval
  u_invoice_number :: jsval
  u_invoice_n :: jsval

record validated = orderData +
  u_items :: "item_input list"
  u_truck_ids :: "jsval list"
  u_driver_ids :: "jsval list"

subsection \<open>The statements\<close>

text \<open>
  One constructor per SQL text of the file, with the values bound to its parameters.
  The three \<^verbatim>\<open>DELETE\<close> texts are written inline in the source.
\<close>

datatype stmt =
    OrderQuery int
  | ItemsQuery int
  | TrucksQuery int
  | DriversQuery int
  | UpdateOrderQuery int "orderData"
  | DeleteItems int
  | InsertItemQuery int item_input
  | DeleteTrucks int
  | InsertTruckQuery int jsval
  | DeleteDrivers int
  | InsertDriverQuery int jsval

text \<open>What a statement that succeeds does to the tables. A \<^verbatim>\<open>SELECT\<close> changes nothing.\<close>

fun mutate :: "stmt \<Rightarrow> database \<Rightarrow> database" where
  "mutate (UpdateOrderQuery id' od) D =
     D\<lparr>APP_PEDIDOS :=
         map (\<lambda>p. if sql_eq (p_id p) (Int_param id')
                   then p\<lparr>p_customer_id := u_customer_id od,
                          p_destination_id := u_destination_id od,
                          p_total := u_total od,
                          p_invoice_series := u_invoice_series od,
                          p_invoice_number := u_invoice_number od,
                          p_invoice_n := u_invoice_n od,
                          p_updated_at := GETDATE D\<rparr>
                   else p)
             (APP_PEDIDOS D)\<rparr>"
| "mutate (DeleteItems id') D =
     D\<lparr>APP_PEDIDOS_ITEMS :=
         filter (\<lambda>i. \<not> sql_eq (i_order_id i) (Int_param id')) (APP_PEDIDOS_ITEMS D)\<rparr>"
| "mutate (InsertItemQuery id' item) D =
     D\<lparr>APP_PEDIDOS_ITEMS :=
         APP_PEDIDOS_ITEMS D @
           [\<lparr>i_id = item_id_of D (items_inserted D),
             i_order_id = Int_param id',
             i_product_id = in_product_id item,
             i_quantity = in_quantity item,
             i_price_per_unit = in_price_per_unit item,
             i_unit = in_unit item\<rparr>],
       items_inserted := Suc (items_inserted D)\<rparr>"
| "mutate (DeleteTrucks id') D =
     D\<lparr>APP_PEDIDOS_CAMIONES :=
         filter (\<lambda>pc. \<not> sql_eq (pc_pedido_id pc) (Int_param id')) (APP_PEDIDOS_CAMIONES D)\<rparr>"
| "mutate (InsertTruckQuery id' truckId) D =
     D\<lparr>APP_PEDIDOS_CAMIONES :=
         APP_PEDIDOS_CAMIONES D @ [\<lparr>pc_pedido_id = Int_param id', pc_camion_id = truckId\<rparr>]\<rparr>"
| "mutate (DeleteDrivers id') D =
     D\<lparr>APP_PEDIDOS_CHOFERES :=
         filter (\<lambda>pch. \<not> sql_eq (pch_pedido_id pch) (Int_param id')) (APP_PEDIDOS_CHOFERES D)\<rparr>"
| "mutate (InsertDriverQuery id' driverId) D =
     D\<lparr>APP_PEDIDOS_CHOFERES :=
         APP_PEDIDOS_CHOFERES D @ [\<lparr>pch_pedido_id = Int_param id', pch_chofer_id = driverId\<rparr>]\<rparr>"
| "mutate (OrderQuery id') D = D"
| "mutate (ItemsQuery id') D = D"
| "mutate (TrucksQuery id') D = D"
| "mutate (DriversQuery id') D = D"

subsection \<open>The four \<^verbatim>\<open>SELECT\<close>s of \<^verbatim>\<open>GET\<close>\<close>

text \<open>
  A row of \<open>orderQuery\<close>: the columns of its \<^verbatim>\<open>SELECT\<close> list, under their aliases.
\<close>

record order_row =
  o_id :: jsval
  o_order_number :: jsval
  o_status :: jsval
  o_created_at :: jsval
  o_notes :: jsval
  o_customer_id :: jsval
  o_destination_id :: jsval
  o_invoice_series :: jsval
  o_invoice_number :: jsval
  o_invoice_n :: jsval
  o_client_name :: jsval
  o_rfc :: jsval
  o_destino_name :: jsval
  o_serie :: jsval
  o_folio :: jsval

record item_row =
  r_id :: jsval
  r_quantity :: jsval
  r_price_per_unit :: jsval
  r_unit :: jsval
  r_product_id :: jsval
  r_product_name :: jsval
  r_product_unit :: jsval

text \<open>
  \<open>orderQuery\<close>: the order joined with its client (inner join), its destination
  and its invoice (left joins), for one order id. SQL fixes no order of the rows; the
  model lists them in table order.
\<close>

definition select_order :: "database \<Rightarrow> int \<Rightarrow> order_row list" where
  "select_order D id' =
     concat (map (\<lambda>p.
       concat (map (\<lambda>c.
         concat (map (\<lambda>d.
           map (\<lambda>f.
             \<lparr>o_id = p_id p, o_order_number = p_order_number p, o_status = p_status p,
              o_created_at = p_created_at p, o_notes = p_notes p,
              o_customer_id = p_customer_id p, o_destination_id = p_destination_id p,
              o_invoice_series = p_invoice_series p, o_invoice_number = p_invoice_number p,
              o_invoice_n = p_invoice_n p,
              o_client_name = c_name c, o_rfc = c_rfc c,
              o_destino_name = column d_name d,
              o_serie = column f_NUMSERIE f, o_folio = column f_NUMFACTURA f\<rparr>)
             (left_join (\<lambda>f. sql_eq (p_invoice_series p) (f_NUMSERIE f)
                               \<and> sql_eq (p_invoice_number p) (f_NUMFACTURA f)
                               \<and> sql_eq (p_invoice_n p) (f_N f))
                        (FACTURASVENTA D)))
           (left_join (\<lambda>d. sql_eq (d_id d) (p_destination_id p)) (APP_DESTINOS D))))
         (filter (\<lambda>c. sql_eq (c_id c) (p_customer_id p)) (VW_APP_CLIENTES D))))
       (filter (\<lambda>p. sql_eq (p_id p) (Int_param id')) (APP_PEDIDOS D)))"

definition select_items :: "database \<Rightarrow> int \<Rightarrow> item_row list" where
  "select_items D id' =
     concat (map (\<lambda>i.
       map (\<lambda>prod.
         \<lparr>r_id = i_id i, r_quantity = i_quantity i, r_price_per_unit = i_price_per_unit i,
          r_unit = i_unit i, r_product_id = prod_id prod, r_product_name = prod_name prod,
          r_product_unit = prod_unit prod\<rparr>)
         (filter (\<lambda>prod. sql_eq (prod_id prod) (i_product_id i)) (VW_APP_PRODUCTOS D)))
       (filter (\<lambda>i. sql_eq (i_order_id i) (Int_param id')) (APP_PEDIDOS_ITEMS D)))"

definition select_trucks :: "database \<Rightarrow> int \<Rightarrow> camion list" where
  "select_trucks D id' =
     concat (map (\<lambda>pc. filter (\<lambda>t. sql_eq (t_id t) (pc_camion_id pc)) (APP_CAMIONES D))
       (filter (\<lambda>pc. sql_eq (pc_pedido_id pc) (Int_param id')) (APP_PEDIDOS_CAMIONES D)))"

definition select_drivers :: "database \<Rightarrow> int \<Rightarrow> chofer list" where
  "select_drivers D id' =
     concat (map (\<lambda>pch. filter (\<lambda>c. sql_eq (ch_id c) (pch_chofer_id pch)) (APP_CHOFERES D))
       (filter (\<lambda>pch. sql_eq (pch_pedido_id pch) (Int_param id')) (APP_PEDIDOS_CHOFERES D)))"

subsection \<open>The world and \<^verbatim>\<open>executeQuery\<close>\<close>

text \<open>What a \<^verbatim>\<open>try\<close> block can catch here.\<close>

datatype exn = QueryError | BodySyntaxError

text \<open>The outcome of an \<^verbatim>\<open>await\<close>: the promise rejects, or resolves to a value.\<close>

datatype 'a outcome = Threw exn | Returned 'a

text \<open>
  The tags given to \<^verbatim>\<open>revalidateTag\<close>: the literal \<^verbatim>\<open>"orders"\<close> and the template
  \<^verbatim>\<open>`order-${id}`\<close>, kept by its number.
\<close>

datatype cache_tag = Tag_orders | Tag_order int

text \<open>
  \<open>trace\<close> lists every statement handed to \<^verbatim>\<open>executeQuery\<close>, in order, whether it
  succeeded or not; \<open>revalidated\<close> the tags given to \<^verbatim>\<open>revalidateTag\<close>; \<open>console\<close>
  the calls of \<^verbatim>\<open>console.error\<close>.
\<close>

record world =
  db :: database
  trace :: "stmt list"
  revalidated :: "cache_tag list"
  console :: "(string \<times> exn) list"

text \<open>
  Modelled from the spec: \<^verbatim>\<open>executeQuery\<close> comes from \<^verbatim>\<open>@/lib/db\<close>, which is not among
  the sources. The spec's contract for it: it accepts a parameterised statement with
  its named, typed parameters and returns an array of row objects, or performs the
  statement; a failure of the database layer reaches the handler as an exception.
  Which statements throw is not decided by the handlers, so it is a parameter:
  \<open>faults n\<close> says that the \<open>n\<close>-th statement handed to \<^verbatim>\<open>executeQuery\<close> (counted
  from 0 over the life of the world) throws. A statement that throws changes no table.
  \<open>rows\<close> computes the rows of the statement from the tables; what the statement
  does to the tables is \<open>mutate\<close>, read off its SQL text in the source.
\<close>

definition executeQuery ::
  "(nat \<Rightarrow> bool) \<Rightarrow> stmt \<Rightarrow> (database \<Rightarrow> 'r) \<Rightarrow> world \<Rightarrow> 'r outcome \<times> world" where
  "executeQuery faults q rows w =
     (if faults (length (trace w))
      then (Threw QueryError, w\<lparr>trace := trace w @ [q]\<rparr>)
      else (Returned (rows (db w)), w\<lparr>db := mutate q (db w), trace := trace w @ [q]\<rparr>))"

subsection \<open>Responses\<close>

record client_obj =
  cl_id :: jsval
  cl_name :: jsval
  cl_rfc :: jsval

record invoice_obj =
  inv_serie :: jsval
  inv_folio :: jsval
  inv_n :: jsval

record product_obj =
  pr_id :: jsval
  pr_name :: jsval
  pr_unit :: jsval

record item_obj =
  it_id :: jsval
  it_quantity :: jsval
  it_price_per_unit :: jsval
  it_unit :: jsval
  it_product :: product_obj

text \<open>
  \<open>populatedOrder\<close>: \<open>po_order\<close> holds the properties spread from the row
  (\<^verbatim>\<open>...order\<close>); \<open>po_invoice\<close> is \<open>None\<close> for \<^verbatim>\<open>null\<close>.
\<close>

record populated_order =
  po_order :: order_row
  po_client :: client_obj
  po_invoice :: "invoice_obj option"
  po_items :: "item_obj list"
  po_trucks :: "camion list"
  po_drivers :: "chofer list"

text \<open>
  The body of a response: plain text, the JSON of \<open>populatedOrder\<close>, the JSON of
  \<^verbatim>\<open>validation.error.errors\<close> (a list of issues of the validator, whose type \<open>'e\<close>
  is the validator's), or the JSON \<^verbatim>\<open>{ message, id }\<close>.
\<close>

datatype 'e body =
    Text string
  | Json_order populated_order
  | Json_errors "'e list"
  | Json_updated string int

record 'e response =
  status :: nat
  body :: "'e body"

text \<open>The texts of the source. The fourth letter of the last word of the first is U+00E1.\<close>

definition msg_invalid_id :: string where
  "msg_invalid_id = ''ID de pedido inv'' @ [char_of (0xE1 :: nat)] @ ''lido''"

definition msg_not_found :: string where
  "msg_not_found = ''Pedido no encontrado''"

definition msg_internal :: string where
  "msg_internal = ''Error interno del servidor''"

definition msg_updated :: string where
  "msg_updated = ''Pedido actualizado correctamente''"

subsection \<open>Sequencing\<close>

text \<open>
  \<^verbatim>\<open>const x = await m; k\<close> inside a \<^verbatim>\<open>try\<close>: when \<open>m\<close> throws, the rest of the
  block is skipped and the exception travels to the \<^verbatim>\<open>catch\<close>.
\<close>

definition await ::
  "'a outcome \<times> world \<Rightarrow> ('a \<Rightarrow> world \<Rightarrow> 'b outcome \<times> world) \<Rightarrow> 'b outcome \<times> world" where
  "await m k = (case m of (Threw e, w) \<Rightarrow> (Threw e, w) | (Returned x, w) \<Rightarrow> k x w)"

subsection \<open>\<^verbatim>\<open>GET\<close>\<close>

text \<open>The object literal \<open>populatedOrder\<close> of the source.\<close>

definition populatedOrder ::
  "(jsstring \<Rightarrow> jsnum) \<Rightarrow> order_row \<Rightarrow> item_row list \<Rightarrow> camion list \<Rightarrow> chofer list
     \<Rightarrow> populated_order" where
  "populatedOrder str2num order itemsResult trucksResult driversResult =
     \<lparr>po_order = order,
      po_client = \<lparr>cl_id = o_customer_id order, cl_name = o_client_name order,
                   cl_rfc = o_rfc order\<rparr>,
      po_invoice =
        (if truthy (js_and (o_invoice_series order) (o_invoice_number order))
         then Some \<lparr>inv_serie = o_invoice_series order,
                    inv_folio = o_invoice_number order,
                    inv_n = o_invoice_n order\<rparr>
         else None),
      po_items =
        map (\<lambda>item.
              \<lparr>it_id = r_id item,
               it_quantity = JNum (Number str2num (r_quantity item)),
               it_price_per_unit = JNum (Number str2num (r_price_per_unit item)),
               it_unit = r_unit item,
               it_product = \<lparr>pr_id = r_product_id item, pr_name = r_product_name item,
                             pr_unit = r_product_unit item\<rparr>\<rparr>)
            itemsResult,
      po_trucks = trucksResult,
      po_drivers = driversResult\<rparr>"

text \<open>The \<^verbatim>\<open>try\<close> block of \<^verbatim>\<open>GET\<close>.\<close>

definition GET_try ::
  "(nat \<Rightarrow> bool) \<Rightarrow> (jsstring \<Rightarrow> jsnum) \<Rightarrow> jsstring \<Rightarrow> world
     \<Rightarrow> 'e response outcome \<times> world" where
  "GET_try faults str2num params_id w =
     (case parseInt10 params_id of
        None \<Rightarrow> (Returned \<lparr>status = 400, body = Text msg_invalid_id\<rparr>, w)
      | Some id' \<Rightarrow>
          await (executeQuery faults (OrderQuery id') (\<lambda>D. select_order D id') w)
            (\<lambda>orderResult w1.
              case orderResult of
                [] \<Rightarrow> (Returned \<lparr>status = 404, body = Text msg_not_found\<rparr>, w1)
              | order # _ \<Rightarrow>
                  await (executeQuery faults (ItemsQuery id') (\<lambda>D. select_items D id') w1)
                    (\<lambda>itemsResult w2.
                  await (executeQuery faults (TrucksQuery id') (\<lambda>D. select_trucks D id') w2)
                    (\<lambda>trucksResult w3.
                  await (executeQuery faults (DriversQuery id') (\<lambda>D. select_drivers D id') w3)
                    (\<lambda>driversResult w4.
                      (Returned
                         \<lparr>status = 200,
                          body = Json_order
                            (populatedOrder str2num order itemsResult trucksResult
                               driversResult)\<rparr>,
                       w4))))))"

text \<open>\<^verbatim>\<open>GET\<close>: the \<^verbatim>\<open>try\<close> block and its \<^verbatim>\<open>catch\<close>.\<close>

definition GET ::
  "(nat \<Rightarrow> bool) \<Rightarrow> (jsstring \<Rightarrow> jsnum) \<Rightarrow> jsstring \<Rightarrow> world \<Rightarrow> 'e response \<times> world" where
  "GET faults str2num params_id w =
     (case GET_try faults str2num params_id w of
        (Returned r, w') \<Rightarrow> (r, w')
      | (Threw error, w') \<Rightarrow>
          (\<lparr>status = 500, body = Text msg_internal\<rparr>,
           w'\<lparr>console := console w' @ [(''[API_ORDERS_ID_GET]'', error)]\<rparr>))"

subsection \<open>\<^verbatim>\<open>PUT\<close>\<close>

text \<open>The three \<^verbatim>\<open>for ... of\<close> loops: one \<^verbatim>\<open>INSERT\<close> per element, in order.\<close>

fun insert_items :: "(nat \<Rightarrow> bool) \<Rightarrow> int \<Rightarrow> item_input list \<Rightarrow> world \<Rightarrow> unit outcome \<times> world" where
  "insert_items faults id' [] w = (Returned (), w)"
| "insert_items faults id' (item # items) w =
     await (executeQuery faults (InsertItemQuery id' item) (\<lambda>D. ()) w)
       (\<lambda>_ w'. insert_items faults id' items w')"

fun insert_trucks :: "(nat \<Rightarrow> bool) \<Rightarrow> int \<Rightarrow> jsval list \<Rightarrow> world \<Rightarrow> unit outcome \<times> world" where
  "insert_trucks faults id' [] w = (Returned (), w)"
| "insert_trucks faults id' (truckId # truck_ids) w =
     await (executeQuery faults (InsertTruckQuery id' truckId) (\<lambda>D. ()) w)
       (\<lambda>_ w'. insert_trucks faults id' truck_ids w')"

fun insert_drivers :: "(nat \<Rightarrow> bool) \<Rightarrow> int \<Rightarrow> jsval list \<Rightarrow> world \<Rightarrow> unit outcome \<times> world" where
  "insert_drivers faults id' [] w = (Returned (), w)"
| "insert_drivers faults id' (driverId # driver_ids) w =
     await (executeQuery faults (InsertDriverQuery id' driverId) (\<lambda>D. ()) w)
       (\<lambda>_ w'. insert_drivers faults id' driver_ids w')"

text \<open>
  The \<^verbatim>\<open>try\<close> block of \<^verbatim>\<open>PUT\<close>. \<open>safeParse\<close> stands for
  \<^verbatim>\<open>orderUpdateSchema.safeParse\<close>: \<open>Inl\<close> the issues when validation fails, \<open>Inr\<close>
  the validated data otherwise. \<open>request_json\<close> is the outcome of
  \<^verbatim>\<open>await request.json()\<close>, which throws when the body is not JSON.
\<close>

definition PUT_try ::
  "('j \<Rightarrow> 'e list + validated) \<Rightarrow> (nat \<Rightarrow> bool) \<Rightarrow> jsstring \<Rightarrow> 'j outcome \<Rightarrow> world
     \<Rightarrow> 'e response outcome \<times> world" where
  "PUT_try safeParse faults params_id request_json w =
     (case parseInt10 params_id of
        None \<Rightarrow> (Returned \<lparr>status = 400, body = Text msg_invalid_id\<rparr>, w)
      | Some id' \<Rightarrow>
          await (request_json, w)
            (\<lambda>body' w0.
              case safeParse body' of
                Inl errors \<Rightarrow> (Returned \<lparr>status = 400, body = Json_errors errors\<rparr>, w0)
              | Inr data \<Rightarrow>
                  await (executeQuery faults
                           (UpdateOrderQuery id' (orderData.truncate data)) (\<lambda>D. ()) w0)
                    (\<lambda>_ w1.
                  await (executeQuery faults (DeleteItems id') (\<lambda>D. ()) w1)
                    (\<lambda>_ w2.
                  await (insert_items faults id' (u_items data) w2)
                    (\<lambda>_ w3.
                  await (executeQuery faults (DeleteTrucks id') (\<lambda>D. ()) w3)
                    (\<lambda>_ w4.
                  await (insert_trucks faults id' (u_truck_ids data) w4)
                    (\<lambda>_ w5.
                  await (executeQuery faults (DeleteDrivers id') (\<lambda>D. ()) w5)
                    (\<lambda>_ w6.
                  await (insert_drivers faults id' (u_driver_ids data) w6)
                    (\<lambda>_ w7.
                      (Returned \<lparr>status = 200, body = Json_updated msg_updated id'\<rparr>,
                       w7\<lparr>revalidated :=
                            revalidated w7 @ [Tag_orders, Tag_order id']\<rparr>))))))))))"

definition PUT ::
  "('j \<Rightarrow> 'e list + validated) \<Rightarrow> (nat \<Rightarrow> bool) \<Rightarrow> jsstring \<Rightarrow> 'j outcome \<Rightarrow> world
     \<Rightarrow> 'e response \<times> world" where
  "PUT safeParse faults params_id request_json w =
     (case PUT_try safeParse faults params_id request_json w of
        (Returned r, w') \<Rightarrow> (r, w')
      | (Threw error, w') \<Rightarrow>
          (\<lparr>status = 500, body = Text msg_internal\<rparr>,
           w'\<lparr>console := console w' @ [(''[API_ORDERS_ID_PUT]'', error)]\<rparr>))"

subsection \<open>The statement sequence of \<^verbatim>\<open>PUT\<close>, as the spec lists it\<close>

text \<open>
  The spec's update sequence: update the header; delete the items of the order and
  insert one row per submitted item; the same for the truck assignments; the same for
  the driver assignments. \<open>put_statements\<close> is that list, and \<open>run_all\<close> hands a
  list of statements to \<^verbatim>\<open>executeQuery\<close> one by one until one throws.
\<close>

definition put_statements :: "int \<Rightarrow> validated \<Rightarrow> stmt list" where
  "put_statements id' data =
     [UpdateOrderQuery id' (orderData.truncate data), DeleteItems id']
     @ map (InsertItemQuery id') (u_items data)
     @ [DeleteTrucks id']
     @ map (InsertTruckQuery id') (u_truck_ids data)
     @ [DeleteDrivers id']
     @ map (InsertDriverQuery id') (u_driver_ids data)"

fun run_all :: "(nat \<Rightarrow> bool) \<Rightarrow> stmt list \<Rightarrow> world \<Rightarrow> unit outcome \<times> world" where
  "run_all faults [] w = (Returned (), w)"
| "run_all faults (q # qs) w =
     await (executeQuery faults q (\<lambda>D. ()) w) (\<lambda>_ w'. run_all faults qs w')"

text \<open>The tables after a list of statements that all succeed.\<close>

definition apply_all :: "stmt list \<Rightarrow> database \<Rightarrow> database" where
  "apply_all qs D = foldl (\<lambda>D' q. mutate q D') D qs"

text \<open>
  The child collections stored for an order: its rows in the three child tables. For an
  item row, \<open>item_data\<close> is what the payload supplies, that is every column but the
  \<open>id\<close> that the database assigns.
\<close>

definition item_data :: "pedido_item \<Rightarrow> item_input" where
  "item_data i =
     \<lparr>in_product_id = i_product_id i, in_quantity = i_quantity i,
      in_price_per_unit = i_price_per_unit i, in_unit = i_unit i\<rparr>"

definition items_of :: "database \<Rightarrow> int \<Rightarrow> item_input list" where
  "items_of D id' =
     map item_data (filter (\<lambda>i. sql_eq (i_order_id i) (Int_param id')) (APP_PEDIDOS_ITEMS D))"

definition truck_ids_of :: "database \<Rightarrow> int \<Rightarrow> jsval list" where
  "truck_ids_of D id' =
     map pc_camion_id
       (filter (\<lambda>pc. sql_eq (pc_pedido_id pc) (Int_param id')) (APP_PEDIDOS_CAMIONES D))"

definition driver_ids_of :: "database \<Rightarrow> int \<Rightarrow> jsval list" where
  "driver_ids_of D id' =
     map pch_chofer_id
       (filter (\<lambda>pch. sql_eq (pch_pedido_id pch) (Int_param id')) (APP_PEDIDOS_CHOFERES D))"

text \<open>
  The rows themselves, as stored, that the three child tables hold for an order, and,
  for an item row, the columns that the \<^verbatim>\<open>INSERT\<close> of the handler supplies: all but
  \<open>id\<close>.
\<close>

definition item_rows_of :: "database \<Rightarrow> int \<Rightarrow> pedido_item list" where
  "item_rows_of D id' =
     filter (\<lambda>i. sql_eq (i_order_id i) (Int_param id')) (APP_PEDIDOS_ITEMS D)"

definition truck_rows_of :: "database \<Rightarrow> int \<Rightarrow> pedido_camion list" where
  "truck_rows_of D id' =
     filter (\<lambda>pc. sql_eq (pc_pedido_id pc) (Int_param id')) (APP_PEDIDOS_CAMIONES D)"

definition driver_rows_of :: "database \<Rightarrow> int \<Rightarrow> pedido_chofer list" where
  "driver_rows_of D id' =
     filter (\<lambda>pch. sql_eq (pch_pedido_id pch) (Int_param id')) (APP_PEDIDOS_CHOFERES D)"

definition supplied_columns :: "pedido_item \<Rightarrow> jsval \<times> item_input" where
  "supplied_columns i = (i_order_id i, item_data i)"

text \<open>
  The reading of ``the id is an integer'' that the spec's example \<^verbatim>\<open>"abc"\<close> suggests:
  the whole string is an optional sign and at least one decimal digit.
\<close>

definition is_integer_string :: "jsstring \<Rightarrow> bool" where
  "is_integer_string s =
     (let t = (if s \<noteq> [] \<and> (hd s = 0x2B \<or> hd s = 0x2D) then tl s else s)
      in t \<noteq> [] \<and> list_all is_digit t)"

subsection \<open>Example data\<close>

text \<open>
  A JSON value, as \<^verbatim>\<open>request.json()\<close> yields it, for the examples.
\<close>

datatype json =
    J_null
  | J_bool bool
  | J_number rat
  | J_string jsstring
  | J_array "json list"
  | J_object "(string \<times> json) list"

definition field :: "string \<Rightarrow> json \<Rightarrow> json option" where
  "field k j = (case j of J_object kvs \<Rightarrow> map_of kvs k | _ \<Rightarrow> None)"

definition is_json_num :: "json option \<Rightarrow> bool" where
  "is_json_num j = (case j of Some (J_number q) \<Rightarrow> True | _ \<Rightarrow> False)"

definition is_json_opt_num :: "json option \<Rightarrow> bool" where
  "is_json_opt_num j = (case j of None \<Rightarrow> True | Some J_null \<Rightarrow> True | Some (J_number q) \<Rightarrow> True | _ \<Rightarrow> False)"

definition is_json_opt_str :: "json option \<Rightarrow> bool" where
  "is_json_opt_str j = (case j of None \<Rightarrow> True | Some J_null \<Rightarrow> True | Some (J_string s) \<Rightarrow> True | _ \<Rightarrow> False)"

definition is_json_str :: "json option \<Rightarrow> bool" where
  "is_json_str j = (case j of Some (J_string s) \<Rightarrow> True | _ \<Rightarrow> False)"

definition is_array :: "json option \<Rightarrow> bool" where
  "is_array j = (case j of Some (J_array xs) \<Rightarrow> True | _ \<Rightarrow> False)"

definition elements :: "json option \<Rightarrow> json list" where
  "elements j = (case j of Some (J_array xs) \<Rightarrow> xs | _ \<Rightarrow> [])"

definition to_jsval :: "json option \<Rightarrow> jsval" where
  "to_jsval j =
     (case j of
        Some J_null \<Rightarrow> JNull
      | Some (J_bool b) \<Rightarrow> JBool b
      | Some (J_number q) \<Rightarrow> JNum (Finite q)
      | Some (J_string s) \<Rightarrow> JStr s
      | _ \<Rightarrow> JUndefined)"

definition item_ok :: "json \<Rightarrow> bool" where
  "item_ok j =
     (is_json_num (field ''product_id'' j) \<and> is_json_num (field ''quantity'' j)
      \<and> is_json_num (field ''price_per_unit'' j) \<and> is_json_str (field ''unit'' j))"

definition to_item :: "json \<Rightarrow> item_input" where
  "to_item j =
     \<lparr>in_product_id = to_jsval (field ''product_id'' j),
      in_quantity = to_jsval (field ''quantity'' j),
      in_price_per_unit = to_jsval (field ''price_per_unit'' j),
      in_unit = to_jsval (field ''unit'' j)\<rparr>"

definition list_ok :: "(json \<Rightarrow> bool) \<Rightarrow> json option \<Rightarrow> bool" where
  "list_ok ok j = (is_array j \<and> list_all ok (elements j))"

text \<open>
  Modelled from the spec: \<^verbatim>\<open>orderUpdateSchema\<close> is not among the sources. The spec
  names the fields of the body (\<open>customer_id\<close>, \<open>destination_id\<close>, \<open>total\<close>,
  \<open>invoice_series\<close>, \<open>invoice_number\<close>, \<open>invoice_n\<close>, \<open>items[]\<close>,
  \<open>truck_ids[]\<close>, \<open>driver_ids[]\<close>). \<open>example_safeParse\<close> is one validator of that
  shape, whose issues are the names of the offending fields. It only instantiates the
  theorems in examples: the theorems hold for every validator.
\<close>

definition example_safeParse :: "json \<Rightarrow> string list + validated" where
  "example_safeParse b =
     (let errors =
            filter (\<lambda>k. \<not> is_json_num (field k b)) [''customer_id'', ''destination_id'', ''total'']
            @ filter (\<lambda>k. \<not> is_json_opt_str (field k b)) [''invoice_series'']
            @ filter (\<lambda>k. \<not> is_json_opt_num (field k b)) [''invoice_number'', ''invoice_n'']
            @ filter (\<lambda>k. \<not> list_ok item_ok (field k b)) [''items'']
            @ filter (\<lambda>k. \<not> list_ok (\<lambda>j. is_json_num (Some j)) (field k b))
                [''truck_ids'', ''driver_ids'']
      in if errors \<noteq> [] then Inl errors
         else Inr \<lparr>u_customer_id = to_jsval (field ''customer_id'' b),
                   u_destination_id = to_jsval (field ''destination_id'' b),
                   u_total = to_jsval (field ''total'' b),
                   u_invoice_series = to_jsval (field ''invoice_series'' b),
                   u_invoice_number = to_jsval (field ''invoice_number'' b),
                   u_invoice_n = to_jsval (field ''invoice_n'' b),
                   u_items = map to_item (elements (field ''items'' b)),
                   u_truck_ids =
                     map (\<lambda>j. to_jsval (Some j)) (elements (field ''truck_ids'' b)),
                   u_driver_ids =
                     map (\<lambda>j. to_jsval (Some j)) (elements (field ''driver_ids'' b))\<rparr>)"

text \<open>
  An instance of the string conversion for the examples: the value of an unsigned
  decimal literal, digits with an optional fraction, as \<^verbatim>\<open>Number\<close> reads it up to
  rounding. The examples hand it nothing else.
\<close>

definition example_str2num :: "jsstring \<Rightarrow> jsnum" where
  "example_str2num s =
     (let ip = takeWhile is_digit s; rest = dropWhile is_digit s;
          val = (\<lambda>ds. foldl (\<lambda>a c. 10 * a + digit_val c) 0 ds)
      in if ip = [] then NaN
         else if rest = [] then Finite (of_int (val ip))
         else if hd rest = 0x2E \<and> tl rest \<noteq> [] \<and> list_all is_digit (tl rest)
              then Finite (of_int (val (ip @ tl rest)) / 10 ^ length (tl rest))
         else NaN)"

definition num :: "rat \<Rightarrow> jsval" where
  "num q = JNum (Finite q)"

text \<open>
  A database with order 7 (client 3, invoice A-15), which has one item (product 1,
  quantity and price delivered as decimal strings), truck 4 and driver 8, and with one
  item, truck and driver of order 8.
\<close>

definition example_db :: database where
  "example_db =
     \<lparr>APP_PEDIDOS =
        [\<lparr>p_id = num 7, p_order_number = JStr (js ''P-0007''), p_status = JStr (js ''open''),
          p_created_at = JDate 1000, p_notes = JNull, p_customer_id = num 3,
          p_destination_id = JNull, p_invoice_series = JStr (js ''A''),
          p_invoice_number = num 15, p_invoice_n = num 1, p_total = num 25,
          p_updated_at = JDate 1000\<rparr>],
      VW_APP_CLIENTES = [\<lparr>c_id = num 3, c_name = JStr (js ''ACME''), c_rfc = JStr (js ''XAXX'')\<rparr>],
      APP_DESTINOS = [],
      FACTURASVENTA = [],
      APP_PEDIDOS_ITEMS =
        [\<lparr>i_id = num 100, i_order_id = num 7, i_product_id = num 1,
          i_quantity = JStr (js ''2.50''), i_price_per_unit = JStr (js ''10.00''),
          i_unit = JStr (js ''kg'')\<rparr>,
         \<lparr>i_id = num 101, i_order_id = num 8, i_product_id = num 1,
          i_quantity = num 4, i_price_per_unit = num 10, i_unit = JStr (js ''kg'')\<rparr>],
      VW_APP_PRODUCTOS = [\<lparr>prod_id = num 1, prod_name = JStr (js ''Grava''), prod_unit = JStr (js ''kg'')\<rparr>],
      APP_PEDIDOS_CAMIONES =
        [\<lparr>pc_pedido_id = num 7, pc_camion_id = num 4\<rparr>,
         \<lparr>pc_pedido_id = num 8, pc_camion_id = num 5\<rparr>],
      APP_CAMIONES =
        [\<lparr>t_id = num 4, t_placa = JStr (js ''AB123''), t_brand = JNull, t_model = JNull\<rparr>,
         \<lparr>t_id = num 5, t_placa = JStr (js ''CD456''), t_brand = JNull, t_model = JNull\<rparr>],
      APP_PEDIDOS_CHOFERES =
        [\<lparr>pch_pedido_id = num 7, pch_chofer_id = num 8\<rparr>,
         \<lparr>pch_pedido_id = num 8, pch_chofer_id = num 9\<rparr>],
      APP_CHOFERES =
        [\<lparr>ch_id = num 8, ch_name = JStr (js ''Ana''), ch_docId = JNull\<rparr>,
         \<lparr>ch_id = num 9, ch_name = JStr (js ''Luis''), ch_docId = JNull\<rparr>],
      GETDATE = JDate 2000,
      item_id_of = (\<lambda>n. num (of_nat n + 500)),
      items_inserted = 0\<rparr>"

definition example_world :: world where
  "example_world = \<lparr>db = example_db, trace = [], revalidated = [], console = []\<rparr>"

text \<open>The same order with invoice number 0: both invoice fields are non-null.\<close>

definition zero_folio_world :: world where
  "zero_folio_world =
     example_world
       \<lparr>db := example_db
          \<lparr>APP_PEDIDOS := map (\<lambda>p. p\<lparr>p_invoice_number := num 0\<rparr>) (APP_PEDIDOS example_db)\<rparr>\<rparr>"

text \<open>The payload of the spec's example: one item, truck 5, driver 9.\<close>

definition example_body :: json where
  "example_body =
     J_object
       [(''customer_id'', J_number 3), (''destination_id'', J_number 2),
        (''total'', J_number 20), (''invoice_series'', J_string (js ''A'')),
        (''invoice_number'', J_number 15), (''invoice_n'', J_number 1),
        (''items'',
           J_array
             [J_object
                [(''product_id'', J_number 1), (''quantity'', J_number 2),
                 (''price_per_unit'', J_number 10), (''unit'', J_string (js ''kg''))]]),
        (''truck_ids'', J_array [J_number 5]),
        (''driver_ids'', J_array [J_number 9])]"

text \<open>The same payload without \<open>customer_id\<close>.\<close>

definition example_bad_body :: json where
  "example_bad_body =
     (case example_body of J_object kvs \<Rightarrow> J_object (tl kvs) | j \<Rightarrow> j)"

text \<open>No statement throws; the statement number \<open>n\<close> throws.\<close>

definition no_faults :: "nat \<Rightarrow> bool" where
  "no_faults n = False"

definition fault_at :: "nat \<Rightarrow> nat \<Rightarrow> bool" where
  "fault_at k n = (n = k)"

text \<open>The data that \<open>example_safeParse\<close> yields for \<open>example_body\<close>.\<close>

definition example_data :: validated where
  "example_data =
     \<lparr>u_customer_id = num 3, u_destination_id = num 2, u_total = num 20,
      u_invoice_series = JStr (js ''A''), u_invoice_number = num 15, u_invoice_n = num 1,
      u_items = [\<lparr>in_product_id = num 1, in_quantity = num 2, in_price_per_unit = num 10,
                  in_unit = JStr (js ''kg'')\<rparr>],
      u_truck_ids = [num 5], u_driver_ids = [num 9]\<rparr>"

text \<open>The order object of a response, when its body is one.\<close>

definition the_order :: "'e body \<Rightarrow> populated_order option" where
  "the_order b = (case b of Json_order po \<Rightarrow> Some po | _ \<Rightarrow> None)"

section \<open>Properties\<close>

subsection \<open>Sequencing and the statement list\<close>

lemma executeQuery_fault:
  "faults (length (trace w)) \<Longrightarrow>
   executeQuery faults q rows w = (Threw QueryError, w\<lparr>trace := trace w @ [q]\<rparr>)"
  by (simp add: executeQuery_def)

lemma executeQuery_ok:
  "\<not> faults (length (trace w)) \<Longrightarrow>
   executeQuery faults q rows w =
     (Returned (rows (db w)), w\<lparr>db := mutate q (db w), trace := trace w @ [q]\<rparr>)"
  by (simp add: executeQuery_def)

lemma await_Threw [simp]: "await (Threw e, w) k = (Threw e, w)"
  by (simp add: await_def)

lemma await_Returned [simp]: "await (Returned x, w) k = k x w"
  by (simp add: await_def)

lemma await_assoc:
  "await (await m f) g = await m (\<lambda>x w. await (f x w) g)"
  by (cases m; rename_tac r w; case_tac r) simp_all

lemma run_all_append:
  "run_all faults (xs @ ys) w = await (run_all faults xs w) (\<lambda>_ w'. run_all faults ys w')"
proof (induction xs arbitrary: w)
  case Nil
  show ?case by simp
next
  case (Cons q xs)
  show ?case
    by (cases "faults (length (trace w))")
       (simp_all add: executeQuery_fault executeQuery_ok Cons.IH)
qed

lemma insert_items_run_all:
  "insert_items faults id' items w = run_all faults (map (InsertItemQuery id') items) w"
  by (induction items arbitrary: w) (simp_all add: await_def executeQuery_def)

lemma insert_trucks_run_all:
  "insert_trucks faults id' ts w = run_all faults (map (InsertTruckQuery id') ts) w"
  by (induction ts arbitrary: w) (simp_all add: await_def executeQuery_def)

lemma insert_drivers_run_all:
  "insert_drivers faults id' ds w = run_all faults (map (InsertDriverQuery id') ds) w"
  by (induction ds arbitrary: w) (simp_all add: await_def executeQuery_def)

lemma PUT_try_run_all:
  assumes "parseInt10 params_id = Some id'" and "safeParse body' = Inr data"
  shows "PUT_try safeParse faults params_id (Returned body') w =
           await (run_all faults (put_statements id' data) w)
             (\<lambda>_ w7. (Returned \<lparr>status = 200, body = Json_updated msg_updated id'\<rparr>,
                       w7\<lparr>revalidated := revalidated w7 @ [Tag_orders, Tag_order id']\<rparr>))"
  using assms
  by (simp add: PUT_try_def put_statements_def run_all_append await_assoc
      insert_items_run_all insert_trucks_run_all insert_drivers_run_all)

lemma apply_all_Nil [simp]: "apply_all [] D = D"
  by (simp add: apply_all_def)

lemma apply_all_Cons [simp]: "apply_all (q # qs) D = apply_all qs (mutate q D)"
  by (simp add: apply_all_def)

lemma apply_all_append: "apply_all (xs @ ys) D = apply_all ys (apply_all xs D)"
  by (simp add: apply_all_def)

lemma run_all_ok:
  "(\<forall>j<length qs. \<not> faults (length (trace w) + j)) \<Longrightarrow>
   run_all faults qs w = (Returned (), w\<lparr>db := apply_all qs (db w), trace := trace w @ qs\<rparr>)"
proof (induction qs arbitrary: w)
  case Nil
  show ?case by simp
next
  case (Cons q qs)
  from Cons.prems have now: "\<not> faults (length (trace w))" by force
  let ?w = "w\<lparr>db := mutate q (db w), trace := trace w @ [q]\<rparr>"
  from Cons.prems have "\<forall>j<length qs. \<not> faults (length (trace ?w) + j)" by force
  then have "run_all faults qs ?w =
      (Returned (), ?w\<lparr>db := apply_all qs (db ?w), trace := trace ?w @ qs\<rparr>)"
    by (rule Cons.IH)
  with now show ?case by (simp add: executeQuery_ok)
qed

lemma run_all_fault:
  "k < length qs \<Longrightarrow> faults (length (trace w) + k) \<Longrightarrow>
   (\<forall>j<k. \<not> faults (length (trace w) + j)) \<Longrightarrow>
   run_all faults qs w =
     (Threw QueryError,
      w\<lparr>db := apply_all (take k qs) (db w), trace := trace w @ take (Suc k) qs\<rparr>)"
proof (induction qs arbitrary: w k)
  case Nil
  then show ?case by simp
next
  case (Cons q qs)
  show ?case
  proof (cases k)
    case 0
    with Cons.prems show ?thesis by (simp add: executeQuery_fault)
  next
    case (Suc k')
    with Cons.prems have now: "\<not> faults (length (trace w))" by force
    let ?w = "w\<lparr>db := mutate q (db w), trace := trace w @ [q]\<rparr>"
    from Cons.prems Suc have a: "k' < length qs" by simp
    from Cons.prems Suc have b: "faults (length (trace ?w) + k')" by simp
    from Cons.prems Suc have c: "\<forall>j<k'. \<not> faults (length (trace ?w) + j)" by force
    have "run_all faults qs ?w =
      (Threw QueryError,
       ?w\<lparr>db := apply_all (take k' qs) (db ?w), trace := trace ?w @ take (Suc k') qs\<rparr>)"
      using a b c by (rule Cons.IH)
    with now Suc show ?thesis by (simp add: executeQuery_ok)
  qed
qed

lemma first_fault_cases:
  "(\<forall>j<n. \<not> P j) \<or> (\<exists>k<n. P k \<and> (\<forall>j<k. \<not> P j))" for P :: "nat \<Rightarrow> bool"
proof (cases "\<exists>j<n. P j")
  case False
  then show ?thesis by blast
next
  case True
  then obtain j where j: "j < n" "P j" by blast
  let ?k = "LEAST i. P i"
  have "P ?k" using j(2) by (rule LeastI)
  moreover have "?k \<le> j" using j(2) by (rule Least_le)
  moreover have "\<forall>i<?k. \<not> P i" using not_less_Least by blast
  ultimately show ?thesis using j(1) by (meson le_less_trans)
qed


subsection \<open>The tables after the statements of \<^verbatim>\<open>PUT\<close>\<close>

lemma sql_eq_Int_param [simp]: "sql_eq (Int_param n) (Int_param n)"
  by (simp add: sql_eq_def sql_null_def Int_param_def)

lemma apply_all_map_preserves:
  assumes "\<And>x D. f (mutate (g x) D) = f D"
  shows "f (apply_all (map g xs) D) = f D"
  by (induction xs arbitrary: D) (simp_all add: assms)

lemma item_data_inserted [simp]:
  "item_data \<lparr>i_id = n, i_order_id = oid, i_product_id = in_product_id item,
              i_quantity = in_quantity item, i_price_per_unit = in_price_per_unit item,
              i_unit = in_unit item\<rparr> = item"
  by (simp add: item_data_def)

lemma items_of_inserts:
  "items_of (apply_all (map (InsertItemQuery id') items) D) id' = items_of D id' @ items"
  by (induction items arbitrary: D) (simp_all add: items_of_def)

lemma truck_ids_of_inserts:
  "truck_ids_of (apply_all (map (InsertTruckQuery id') ts) D) id' = truck_ids_of D id' @ ts"
  by (induction ts arbitrary: D) (simp_all add: truck_ids_of_def)

lemma driver_ids_of_inserts:
  "driver_ids_of (apply_all (map (InsertDriverQuery id') ds) D) id' = driver_ids_of D id' @ ds"
  by (induction ds arbitrary: D) (simp_all add: driver_ids_of_def)

lemma items_of_delete [simp]: "items_of (mutate (DeleteItems id') D) id' = []"
  by (simp add: items_of_def)

lemma truck_ids_of_delete [simp]: "truck_ids_of (mutate (DeleteTrucks id') D) id' = []"
  by (simp add: truck_ids_of_def)

lemma driver_ids_of_delete [simp]: "driver_ids_of (mutate (DeleteDrivers id') D) id' = []"
  by (simp add: driver_ids_of_def)

lemma items_of_other [simp]:
  "items_of (mutate (DeleteTrucks i) D) id' = items_of D id'"
  "items_of (mutate (DeleteDrivers i) D) id' = items_of D id'"
  "items_of (apply_all (map (InsertTruckQuery i) ts) D) id' = items_of D id'"
  "items_of (apply_all (map (InsertDriverQuery i) ds) D) id' = items_of D id'"
  by (simp_all add: items_of_def
      apply_all_map_preserves [where f = APP_PEDIDOS_ITEMS])

lemma truck_ids_of_other [simp]:
  "truck_ids_of (mutate (DeleteDrivers i) D) id' = truck_ids_of D id'"
  "truck_ids_of (apply_all (map (InsertDriverQuery i) ds) D) id' = truck_ids_of D id'"
  by (simp_all add: truck_ids_of_def
      apply_all_map_preserves [where f = APP_PEDIDOS_CAMIONES])

lemma put_statements_children:
  "items_of (apply_all (put_statements id' data) D) id' = u_items data"
  "truck_ids_of (apply_all (put_statements id' data) D) id' = u_truck_ids data"
  "driver_ids_of (apply_all (put_statements id' data) D) id' = u_driver_ids data"
  by (simp_all add: put_statements_def apply_all_append items_of_inserts
      truck_ids_of_inserts driver_ids_of_inserts del: mutate.simps)

text \<open>
  A stored row of an order carries the order's id, so the rows are determined by the
  remaining columns.
\<close>

lemma truck_rows_of_ids:
  "truck_rows_of D id' =
     map (\<lambda>t. \<lparr>pc_pedido_id = Int_param id', pc_camion_id = t\<rparr>) (truck_ids_of D id')"
proof -
  have "filter (\<lambda>pc. sql_eq (pc_pedido_id pc) (Int_param id')) xs =
      map (\<lambda>t. \<lparr>pc_pedido_id = Int_param id', pc_camion_id = t\<rparr>)
        (map pc_camion_id (filter (\<lambda>pc. sql_eq (pc_pedido_id pc) (Int_param id')) xs))"
    for xs
    by (induction xs) (auto simp: sql_eq_def)
  then show ?thesis by (simp add: truck_rows_of_def truck_ids_of_def)
qed

lemma driver_rows_of_ids:
  "driver_rows_of D id' =
     map (\<lambda>d. \<lparr>pch_pedido_id = Int_param id', pch_chofer_id = d\<rparr>) (driver_ids_of D id')"
proof -
  have "filter (\<lambda>pch. sql_eq (pch_pedido_id pch) (Int_param id')) xs =
      map (\<lambda>d. \<lparr>pch_pedido_id = Int_param id', pch_chofer_id = d\<rparr>)
        (map pch_chofer_id (filter (\<lambda>pch. sql_eq (pch_pedido_id pch) (Int_param id')) xs))"
    for xs
    by (induction xs) (auto simp: sql_eq_def)
  then show ?thesis by (simp add: driver_rows_of_def driver_ids_of_def)
qed

lemma item_rows_of_supplied:
  "map supplied_columns (item_rows_of D id') = map (Pair (Int_param id')) (items_of D id')"
proof -
  have "map supplied_columns (filter (\<lambda>i. sql_eq (i_order_id i) (Int_param id')) xs) =
      map (Pair (Int_param id'))
        (map item_data (filter (\<lambda>i. sql_eq (i_order_id i) (Int_param id')) xs))"
    for xs
    by (induction xs) (auto simp: sql_eq_def supplied_columns_def)
  then show ?thesis by (simp add: item_rows_of_def items_of_def)
qed

lemma PUT_all_succeed:
  assumes "parseInt10 params_id = Some id'" and "safeParse body' = Inr data"
    and "\<forall>j<length (put_statements id' data). \<not> faults (length (trace w) + j)"
  shows "PUT safeParse faults params_id (Returned body') w =
           (\<lparr>status = 200, body = Json_updated msg_updated id'\<rparr>,
            w\<lparr>db := apply_all (put_statements id' data) (db w),
              trace := trace w @ put_statements id' data,
              revalidated := revalidated w @ [Tag_orders, Tag_order id']\<rparr>)"
  by (simp add: PUT_def run_all_ok [OF assms(3)]
      PUT_try_run_all [where safeParse = safeParse and body' = body', OF assms(1,2)])

lemma PUT_first_fault:
  assumes "parseInt10 params_id = Some id'" and "safeParse body' = Inr data"
    and "k < length (put_statements id' data)"
    and "faults (length (trace w) + k)"
    and "\<forall>j<k. \<not> faults (length (trace w) + j)"
  shows "PUT safeParse faults params_id (Returned body') w =
           (\<lparr>status = 500, body = Text msg_internal\<rparr>,
            w\<lparr>db := apply_all (take k (put_statements id' data)) (db w),
              trace := trace w @ take (Suc k) (put_statements id' data),
              console := console w @ [(''[API_ORDERS_ID_PUT]'', QueryError)]\<rparr>)"
  by (simp add: PUT_def run_all_fault [OF assms(3,4,5)]
      PUT_try_run_all [where safeParse = safeParse and body' = body', OF assms(1,2)])

lemma PUT_outcome:
  assumes "PUT safeParse faults params_id request_json w = (r, w')"
  shows "(parseInt10 params_id = None
          \<and> r = \<lparr>status = 400, body = Text msg_invalid_id\<rparr> \<and> w' = w)
       \<or> (\<exists>id' e. parseInt10 params_id = Some id' \<and> request_json = Threw e
              \<and> r = \<lparr>status = 500, body = Text msg_internal\<rparr>
              \<and> w' = w\<lparr>console := console w @ [(''[API_ORDERS_ID_PUT]'', e)]\<rparr>)
       \<or> (\<exists>id' body' errors. parseInt10 params_id = Some id'
              \<and> request_json = Returned body' \<and> safeParse body' = Inl errors
              \<and> r = \<lparr>status = 400, body = Json_errors errors\<rparr> \<and> w' = w)
       \<or> (\<exists>id' body' data. parseInt10 params_id = Some id'
              \<and> request_json = Returned body' \<and> safeParse body' = Inr data
              \<and> (\<forall>j<length (put_statements id' data). \<not> faults (length (trace w) + j))
              \<and> r = \<lparr>status = 200, body = Json_updated msg_updated id'\<rparr>
              \<and> w' = w\<lparr>db := apply_all (put_statements id' data) (db w),
                        trace := trace w @ put_statements id' data,
                        revalidated := revalidated w @ [Tag_orders, Tag_order id']\<rparr>)
       \<or> (\<exists>id' body' data k. parseInt10 params_id = Some id'
              \<and> request_json = Returned body' \<and> safeParse body' = Inr data
              \<and> k < length (put_statements id' data)
              \<and> faults (length (trace w) + k)
              \<and> (\<forall>j<k. \<not> faults (length (trace w) + j))
              \<and> r = \<lparr>status = 500, body = Text msg_internal\<rparr>
              \<and> w' = w\<lparr>db := apply_all (take k (put_statements id' data)) (db w),
                        trace := trace w @ take (Suc k) (put_statements id' data),
                        console := console w @ [(''[API_ORDERS_ID_PUT]'', QueryError)]\<rparr>)"
proof (cases "parseInt10 params_id")
  case None
  with assms show ?thesis by (auto simp: PUT_def PUT_try_def)
next
  case (Some id')
  show ?thesis
  proof (cases request_json)
    case (Threw e)
    with Some assms show ?thesis by (auto simp: PUT_def PUT_try_def)
  next
    case (Returned body')
    show ?thesis
    proof (cases "safeParse body'")
      case (Inl errors)
      with Some Returned assms show ?thesis by (auto simp: PUT_def PUT_try_def)
    next
      case (Inr data)
      let ?n = "length (put_statements id' data)"
      from first_fault_cases [of ?n "\<lambda>j. faults (length (trace w) + j)"]
      show ?thesis
      proof
        assume ok: "\<forall>j<?n. \<not> faults (length (trace w) + j)"
        from PUT_all_succeed [where safeParse = safeParse and body' = body', OF Some Inr ok]
          assms Returned Some Inr ok
        show ?thesis by auto
      next
        assume "\<exists>k<?n. faults (length (trace w) + k) \<and> (\<forall>j<k. \<not> faults (length (trace w) + j))"
        then obtain k where k: "k < ?n" "faults (length (trace w) + k)"
          "\<forall>j<k. \<not> faults (length (trace w) + j)" by blast
        from PUT_first_fault [where safeParse = safeParse and body' = body', OF Some Inr k]
          assms Returned Some Inr k
        show ?thesis by auto
      qed
    qed
  qed
qed

lemma PUT_status_200:
  assumes "PUT safeParse faults params_id request_json w = (r, w')" and "status r = 200"
  shows "\<exists>id' body' data.
           parseInt10 params_id = Some id' \<and> request_json = Returned body'
           \<and> safeParse body' = Inr data
           \<and> (\<forall>j<length (put_statements id' data). \<not> faults (length (trace w) + j))
           \<and> r = \<lparr>status = 200, body = Json_updated msg_updated id'\<rparr>
           \<and> w' = w\<lparr>db := apply_all (put_statements id' data) (db w),
                     trace := trace w @ put_statements id' data,
                     revalidated := revalidated w @ [Tag_orders, Tag_order id']\<rparr>"
  using PUT_outcome [OF assms(1)] assms(2) by auto

subsection \<open>Facts about the example data\<close>

lemmas js_eval = js_def parseInt10_def StrWhiteSpaceChar_def is_digit_def digit_val_def

lemma parse_7: "parseInt10 (js ''7'') = Some 7"
  by (simp add: js_eval)

lemma parse_8: "parseInt10 (js ''8'') = Some 8"
  by (simp add: js_eval)

lemma parse_abc: "parseInt10 (js ''abc'') = None"
  by (simp add: js_eval)

lemma example_trace: "trace example_world = []"
  by (simp add: example_world_def)

lemma example_parse: "example_safeParse example_body = Inr example_data"
  by code_simp

lemma example_bad_parse: "example_safeParse example_bad_body = Inl [''customer_id'']"
  by code_simp

lemma no_order_8: "select_order (db example_world) 8 = []"
  by code_simp

lemma example_PUT:
  "PUT example_safeParse no_faults (js ''7'') (Returned example_body) w =
     (\<lparr>status = 200, body = Json_updated msg_updated 7\<rparr>,
      w\<lparr>db := apply_all (put_statements 7 example_data) (db w),
        trace := trace w @ put_statements 7 example_data,
        revalidated := revalidated w @ [Tag_orders, Tag_order 7]\<rparr>)"
  by (rule PUT_all_succeed
        [where safeParse = example_safeParse and body' = example_body,
         OF parse_7 example_parse])
     (simp add: no_faults_def)

section \<open>The claims\<close>

subsection \<open>C1: a successful \<^verbatim>\<open>PUT\<close> replaces the three child collections\<close>

text \<open>
  Claim C1. When \<^verbatim>\<open>PUT\<close> answers 200 for order \<open>id'\<close> and validated payload
  \<open>data\<close>, the rows stored for that order in the three child tables are afterwards
  exactly the submitted ones, in the submitted order: the item rows carry the submitted
  items (every column the payload supplies), the truck rows the submitted truck ids and
  the driver rows the submitted driver ids. Rows that the order had before are gone.
\<close>

theorem PUT_replaces_child_collections:
  assumes "PUT safeParse faults params_id (Returned body') w = (r, w')"
    and "status r = 200"
    and "parseInt10 params_id = Some id'"
    and "safeParse body' = Inr data"
  shows "items_of (db w') id' = u_items data
       \<and> truck_ids_of (db w') id' = u_truck_ids data
       \<and> driver_ids_of (db w') id' = u_driver_ids data"
  using PUT_status_200 [OF assms(1,2)] assms(3,4)
  by (auto simp: put_statements_children)

theorem PUT_replaces_child_collections_witness:
  "status (fst (PUT example_safeParse no_faults (js ''7'') (Returned example_body)
                  example_world)) = 200
   \<and> truck_ids_of (db example_world) 7 = [num 4]
   \<and> driver_ids_of (db example_world) 7 = [num 8]
   \<and> items_of (db (snd (PUT example_safeParse no_faults (js ''7'') (Returned example_body)
                          example_world))) 7 = u_items example_data
   \<and> truck_ids_of (db (snd (PUT example_safeParse no_faults (js ''7'')
                               (Returned example_body) example_world))) 7 = [num 5]
   \<and> driver_ids_of (db (snd (PUT example_safeParse no_faults (js ''7'')
                                (Returned example_body) example_world))) 7 = [num 9]"
proof -
  let ?P = "PUT example_safeParse no_faults (js ''7'') (Returned example_body) example_world"
  have p: "?P = (fst ?P, snd ?P)" by simp
  have s: "status (fst ?P) = 200" by (simp add: example_PUT)
  have old: "truck_ids_of (db example_world) 7 = [num 4]
      \<and> driver_ids_of (db example_world) 7 = [num 8]" by code_simp
  from PUT_replaces_child_collections
    [where safeParse = example_safeParse and body' = example_body,
     OF p s parse_7 example_parse]
  show ?thesis using s old by (simp add: example_data_def)
qed

subsection \<open>C6: the same \<^verbatim>\<open>PUT\<close> twice\<close>

text \<open>
  Claim C6, as amended. When the same \<^verbatim>\<open>PUT\<close> is run twice in succession and both
  runs answer 200, the child collections of the order after the second run are those
  after the first in everything the handler writes: the truck rows are the same rows,
  the driver rows are the same rows, and the item rows agree, row by row, in every
  column that the \<^verbatim>\<open>INSERT\<close> supplies (\<open>order_id\<close>, \<open>product_id\<close>, \<open>quantity\<close>,
  \<open>price_per_unit\<close>, \<open>unit\<close>). Nothing is said of the \<open>id\<close> column of the item
  rows, which the database assigns anew at each insert.
\<close>

theorem PUT_twice_same_child_collections:
  assumes "PUT safeParse faults params_id request_json w = (r1, w1)"
    and "status r1 = 200"
    and "PUT safeParse faults params_id request_json w1 = (r2, w2)"
    and "status r2 = 200"
    and "parseInt10 params_id = Some id'"
  shows "items_of (db w2) id' = items_of (db w1) id'
       \<and> truck_ids_of (db w2) id' = truck_ids_of (db w1) id'
       \<and> driver_ids_of (db w2) id' = driver_ids_of (db w1) id'
       \<and> map supplied_columns (item_rows_of (db w2) id')
           = map supplied_columns (item_rows_of (db w1) id')
       \<and> truck_rows_of (db w2) id' = truck_rows_of (db w1) id'
       \<and> driver_rows_of (db w2) id' = driver_rows_of (db w1) id'"
  using PUT_status_200 [OF assms(1,2)] PUT_status_200 [OF assms(3,4)] assms(5)
  by (auto simp: put_statements_children truck_rows_of_ids driver_rows_of_ids
      item_rows_of_supplied)

theorem PUT_twice_witness:
  "status (fst (PUT example_safeParse no_faults (js ''7'') (Returned example_body)
                  example_world)) = 200
   \<and> status (fst (PUT example_safeParse no_faults (js ''7'') (Returned example_body)
         (snd (PUT example_safeParse no_faults (js ''7'') (Returned example_body)
                 example_world)))) = 200
   \<and> items_of (db (snd (PUT example_safeParse no_faults (js ''7'') (Returned example_body)
         (snd (PUT example_safeParse no_faults (js ''7'') (Returned example_body)
                 example_world))))) 7
       = items_of (db (snd (PUT example_safeParse no_faults (js ''7'')
                              (Returned example_body) example_world))) 7
   \<and> truck_rows_of (db (snd (PUT example_safeParse no_faults (js ''7'')
         (Returned example_body)
         (snd (PUT example_safeParse no_faults (js ''7'') (Returned example_body)
                 example_world))))) 7
       = truck_rows_of (db (snd (PUT example_safeParse no_faults (js ''7'')
                                   (Returned example_body) example_world))) 7"
proof -
  let ?P = "PUT example_safeParse no_faults (js ''7'') (Returned example_body) example_world"
  let ?Q = "PUT example_safeParse no_faults (js ''7'') (Returned example_body) (snd ?P)"
  have p: "?P = (fst ?P, snd ?P)" by simp
  have q: "?Q = (fst ?Q, snd ?Q)" by simp
  have s1: "status (fst ?P) = 200" by (simp add: example_PUT)
  have s2: "status (fst ?Q) = 200" by (simp add: example_PUT)
  from PUT_twice_same_child_collections [OF p s1 q s2 parse_7]
  show ?thesis using s1 s2 by simp
qed

text \<open>
  The claim as stated, the same final state with identical items, fails on the stored
  rows. In the example the database numbers the item rows it inserts, as an identity
  column does: after one run the item row of order 7 has id 500, after two runs it has
  id 501, so the item rows of the order are not the same rows. \<^verbatim>\<open>GET\<close> returns this
  column as \<open>id\<close> of each item.
\<close>

theorem PUT_twice_item_ids_counterexample:
  "status (fst (PUT example_safeParse no_faults (js ''7'') (Returned example_body)
                  example_world)) = 200
   \<and> status (fst (PUT example_safeParse no_faults (js ''7'') (Returned example_body)
         (snd (PUT example_safeParse no_faults (js ''7'') (Returned example_body)
                 example_world)))) = 200
   \<and> map i_id (item_rows_of (db (snd (PUT example_safeParse no_faults (js ''7'')
         (Returned example_body) example_world))) 7) = [num 500]
   \<and> map i_id (item_rows_of (db (snd (PUT example_safeParse no_faults (js ''7'')
         (Returned example_body)
         (snd (PUT example_safeParse no_faults (js ''7'') (Returned example_body)
                 example_world))))) 7) = [num 501]
   \<and> item_rows_of (db (snd (PUT example_safeParse no_faults (js ''7'')
         (Returned example_body)
         (snd (PUT example_safeParse no_faults (js ''7'') (Returned example_body)
                 example_world))))) 7
       \<noteq> item_rows_of (db (snd (PUT example_safeParse no_faults (js ''7'')
                                   (Returned example_body) example_world))) 7"
proof -
  let ?P = "PUT example_safeParse no_faults (js ''7'') (Returned example_body) example_world"
  let ?Q = "PUT example_safeParse no_faults (js ''7'') (Returned example_body) (snd ?P)"
  let ?D1 = "apply_all (put_statements 7 example_data) (db example_world)"
  let ?D2 = "apply_all (put_statements 7 example_data) ?D1"
  have s1: "status (fst ?P) = 200" by (simp add: example_PUT)
  have s2: "status (fst ?Q) = 200" by (simp add: example_PUT)
  have d1: "db (snd ?P) = ?D1" by (simp add: example_PUT)
  have d2: "db (snd ?Q) = ?D2" by (simp add: example_PUT)
  have e1: "map i_id (item_rows_of ?D1 7) = [num 500]" by code_simp
  have e2: "map i_id (item_rows_of ?D2 7) = [num 501]" by code_simp
  have ne: "[num 501] \<noteq> [num 500]" by (simp add: num_def)
  from e1 e2 ne have "item_rows_of ?D2 7 \<noteq> item_rows_of ?D1 7" by metis
  with s1 s2 e1 e2 show ?thesis by (simp add: d1 d2)
qed

lemma example_PUT_fault:
  "PUT example_safeParse (fault_at 2) (js ''7'') (Returned example_body) example_world =
     (\<lparr>status = 500, body = Text msg_internal\<rparr>,
      example_world
        \<lparr>db := apply_all (take 2 (put_statements 7 example_data)) (db example_world),
         trace := trace example_world @ take (Suc 2) (put_statements 7 example_data),
         console := console example_world @ [(''[API_ORDERS_ID_PUT]'', QueryError)]\<rparr>)"
  by (rule PUT_first_fault
        [where safeParse = example_safeParse and body' = example_body,
         OF parse_7 example_parse])
     (simp_all add: put_statements_def fault_at_def example_trace)

subsection \<open>C8: a statement of \<^verbatim>\<open>PUT\<close> fails\<close>

text \<open>
  Claim C8. When statement number \<open>k\<close> of the write sequence of \<^verbatim>\<open>PUT\<close> is the
  first to throw, the handler answers 500 with the generic text, the \<open>k\<close> statements
  before it stay applied, the failing statement is the last one issued (nothing is
  undone), and the error is logged.
\<close>

theorem PUT_failure_keeps_applied_phases:
  assumes "parseInt10 params_id = Some id'" and "safeParse body' = Inr data"
    and "k < length (put_statements id' data)"
    and "faults (length (trace w) + k)"
    and "\<forall>j<k. \<not> faults (length (trace w) + j)"
  shows "PUT safeParse faults params_id (Returned body') w =
           (\<lparr>status = 500, body = Text msg_internal\<rparr>,
            w\<lparr>db := apply_all (take k (put_statements id' data)) (db w),
              trace := trace w @ take (Suc k) (put_statements id' data),
              console := console w @ [(''[API_ORDERS_ID_PUT]'', QueryError)]\<rparr>)"
  using assms by (rule PUT_first_fault)

theorem PUT_failure_witness:
  "2 < length (put_statements 7 example_data)
   \<and> fault_at 2 (length (trace example_world) + 2)
   \<and> \<not> fault_at 2 (length (trace example_world))
   \<and> \<not> fault_at 2 (length (trace example_world) + 1)
   \<and> status (fst (PUT example_safeParse (fault_at 2) (js ''7'') (Returned example_body)
                    example_world)) = 500
   \<and> items_of (db example_world) 7 \<noteq> []
   \<and> items_of (db (snd (PUT example_safeParse (fault_at 2) (js ''7'')
                            (Returned example_body) example_world))) 7 = []
   \<and> map p_total (APP_PEDIDOS (db (snd (PUT example_safeParse (fault_at 2) (js ''7'')
                            (Returned example_body) example_world)))) = [num 20]
   \<and> truck_ids_of (db (snd (PUT example_safeParse (fault_at 2) (js ''7'')
                            (Returned example_body) example_world))) 7 = [num 4]"
proof -
  let ?P = "PUT example_safeParse (fault_at 2) (js ''7'') (Returned example_body)
              example_world"
  let ?D = "apply_all [UpdateOrderQuery 7 (orderData.truncate example_data), DeleteItems 7]
              (db example_world)"
  have a: "2 < length (put_statements 7 example_data)"
    by (simp add: put_statements_def)
  have b: "fault_at 2 (length (trace example_world) + 2)"
    by (simp add: fault_at_def example_trace)
  have c: "\<forall>j<2. \<not> fault_at 2 (length (trace example_world) + j)"
    by (simp add: fault_at_def example_trace)
  have t: "take 2 (put_statements 7 example_data) =
      [UpdateOrderQuery 7 (orderData.truncate example_data), DeleteItems 7]"
    by (simp add: put_statements_def)
  from PUT_failure_keeps_applied_phases
    [where safeParse = example_safeParse and body' = example_body,
     OF parse_7 example_parse a b c]
  have eq: "status (fst ?P) = 500 \<and> db (snd ?P) = ?D"
    by (simp add: t)
  have e0: "items_of (db example_world) 7 \<noteq> []" by code_simp
  have e1: "items_of ?D 7 = []" by code_simp
  have e2: "map p_total (APP_PEDIDOS ?D) = [num 20]" by code_simp
  have e3: "truck_ids_of ?D 7 = [num 4]" by code_simp
  have c': "\<not> fault_at 2 (length (trace example_world))
      \<and> \<not> fault_at 2 (length (trace example_world) + 1)"
    by (simp add: fault_at_def example_trace)
  show ?thesis using a b c' eq e0 e1 e2 e3 by simp
qed

subsection \<open>C10: cache invalidation only after every statement succeeded\<close>

text \<open>
  Claim C10. Whatever the request and whichever statements throw, \<^verbatim>\<open>PUT\<close> ends in
  one of two ways. Either every statement of the write sequence was issued and none
  threw, the two tags \<^verbatim>\<open>orders\<close> and \<^verbatim>\<open>order-<id>\<close> were invalidated, in
  this order, and the answer is 200 with message and id; or the answer is not 200, its
  body is not the success object, and no tag was invalidated.
\<close>

theorem PUT_invalidates_only_on_full_success:
  assumes "PUT safeParse faults params_id request_json w = (r, w')"
  shows "(\<exists>id' body' data.
            parseInt10 params_id = Some id' \<and> request_json = Returned body'
            \<and> safeParse body' = Inr data
            \<and> (\<forall>j<length (put_statements id' data). \<not> faults (length (trace w) + j))
            \<and> trace w' = trace w @ put_statements id' data
            \<and> r = \<lparr>status = 200, body = Json_updated msg_updated id'\<rparr>
            \<and> revalidated w' = revalidated w @ [Tag_orders, Tag_order id'])
       \<or> (status r \<noteq> 200 \<and> (\<forall>m i. body r \<noteq> Json_updated m i)
            \<and> revalidated w' = revalidated w)"
  using PUT_outcome [OF assms] by auto

theorem PUT_invalidates_witness:
  "status (fst (PUT example_safeParse (fault_at 2) (js ''7'') (Returned example_body)
                  example_world)) = 500
   \<and> trace (snd (PUT example_safeParse (fault_at 2) (js ''7'') (Returned example_body)
                    example_world)) \<noteq> []
   \<and> revalidated (snd (PUT example_safeParse (fault_at 2) (js ''7'')
                          (Returned example_body) example_world))
       = revalidated example_world"
proof -
  let ?P = "PUT example_safeParse (fault_at 2) (js ''7'') (Returned example_body)
              example_world"
  have p: "?P = (fst ?P, snd ?P)" by simp
  have s: "status (fst ?P) = 500 \<and> trace (snd ?P) \<noteq> []"
    by (simp add: example_PUT_fault put_statements_def)
  from PUT_invalidates_only_on_full_success [OF p] s
  have "revalidated (snd ?P) = revalidated example_world" by auto
  with s show ?thesis by simp
qed

subsection \<open>C3: a path id that is not a number\<close>

text \<open>
  When \<^verbatim>\<open>parseInt\<close> gives \<open>NaN\<close>: after the leading white space and an optional sign,
  nothing is left or what is left does not start with a decimal digit.
\<close>

lemma parseInt10_None_iff:
  "parseInt10 s = None \<longleftrightarrow>
     (let S = dropWhile StrWhiteSpaceChar s;
          S' = (if S \<noteq> [] \<and> (hd S = 0x2B \<or> hd S = 0x2D) then tl S else S)
      in S' = [] \<or> \<not> is_digit (hd S'))"
  by (simp add: parseInt10_def Let_def takeWhile_eq_Nil_iff)

text \<open>An id that \<^verbatim>\<open>parseInt\<close> reads as a number takes both handlers past the guard.\<close>

lemma parsed_id_reaches_database:
  assumes "parseInt10 params_id = Some id'"
  shows "trace (snd (GET faults str2num params_id w)) \<noteq> trace w"
  using assms
  by (auto simp: GET_def GET_try_def executeQuery_def await_def
      split: list.splits prod.splits outcome.splits)

text \<open>
  Claim C3, as amended. When \<^verbatim>\<open>Number.parseInt(params.id, 10)\<close> is \<open>NaN\<close>, that is
  when the id, after leading white space and an optional sign, does not start with a
  decimal digit, both handlers answer 400 with the text of the invalid id and leave the
  world as it was: no statement is handed to \<^verbatim>\<open>executeQuery\<close>.
\<close>

theorem invalid_id_rejected_before_database:
  assumes "parseInt10 params_id = None"
  shows "GET faults str2num params_id w = (\<lparr>status = 400, body = Text msg_invalid_id\<rparr>, w)
       \<and> PUT safeParse faults' params_id request_json w =
           (\<lparr>status = 400, body = Text msg_invalid_id\<rparr>, w)"
  using assms by (simp add: GET_def GET_try_def PUT_def PUT_try_def)

theorem invalid_id_rejected_witness:
  "parseInt10 (js ''abc'') = None
   \<and> GET no_faults example_str2num (js ''abc'') example_world =
       (\<lparr>status = 400, body = Text msg_invalid_id\<rparr>, example_world)
   \<and> PUT example_safeParse no_faults (js ''abc'') (Returned example_body) example_world =
       (\<lparr>status = 400, body = Text msg_invalid_id\<rparr>, example_world)"
  using invalid_id_rejected_before_database
    [where params_id = "js ''abc''" and faults = no_faults and str2num = example_str2num
       and w = example_world and safeParse = example_safeParse and faults' = no_faults
       and request_json = "Returned example_body", OF parse_abc]
  by (simp add: parse_abc)

text \<open>
  The claim as stated, for every id string that is not an integer, fails: the string
  \<^verbatim>\<open>7abc\<close> is not an integer, yet \<^verbatim>\<open>parseInt\<close> reads 7 from it, and both handlers go on
  to the database with order 7.
\<close>

theorem id_with_integer_prefix_counterexample:
  "\<not> is_integer_string (js ''7abc'')
   \<and> status (fst (GET no_faults example_str2num (js ''7abc'') example_world
                    :: unit response \<times> world)) = 200
   \<and> trace (snd (GET no_faults example_str2num (js ''7abc'') example_world
                    :: unit response \<times> world))
       = [OrderQuery 7, ItemsQuery 7, TrucksQuery 7, DriversQuery 7]
   \<and> status (fst (PUT example_safeParse no_faults (js ''7abc'') (Returned example_body)
                    example_world)) = 200
   \<and> length (trace (snd (PUT example_safeParse no_faults (js ''7abc'')
                            (Returned example_body) example_world))) = 7"
proof -
  have p: "parseInt10 (js ''7abc'') = Some 7" by (simp add: js_eval)
  have n: "\<not> is_integer_string (js ''7abc'')"
    by (simp add: is_integer_string_def js_def is_digit_def)
  have g: "status (fst (GET no_faults example_str2num (js ''7abc'') example_world
                          :: unit response \<times> world)) = 200
     \<and> trace (snd (GET no_faults example_str2num (js ''7abc'') example_world
                      :: unit response \<times> world))
         = [OrderQuery 7, ItemsQuery 7, TrucksQuery 7, DriversQuery 7]"
    by code_simp
  have u: "PUT example_safeParse no_faults (js ''7abc'') (Returned example_body) example_world =
     (\<lparr>status = 200, body = Json_updated msg_updated 7\<rparr>,
      example_world\<lparr>db := apply_all (put_statements 7 example_data) (db example_world),
        trace := trace example_world @ put_statements 7 example_data,
        revalidated := revalidated example_world @ [Tag_orders, Tag_order 7]\<rparr>)"
    by (rule PUT_all_succeed
          [where safeParse = example_safeParse and body' = example_body,
           OF p example_parse])
       (simp add: no_faults_def)
  show ?thesis using n g
    by (simp add: u put_statements_def example_trace example_data_def)
qed

subsection \<open>C9: a body that is not JSON\<close>

text \<open>
  Claim C9, as amended. For a \<^verbatim>\<open>PUT\<close> whose path id passes the guard, that is for
  which \<^verbatim>\<open>Number.parseInt(params.id, 10)\<close> is not \<open>NaN\<close>, and whose body is not JSON,
  so that \<^verbatim>\<open>request.json()\<close> throws: the answer is 500 with the generic text, not 400;
  the error is logged; the tables, the list of issued statements and the invalidated
  tags are as before.
\<close>

theorem malformed_body_is_internal_error:
  assumes "parseInt10 params_id = Some id'"
  shows "PUT safeParse faults params_id (Threw BodySyntaxError) w =
           (\<lparr>status = 500, body = Text msg_internal\<rparr>,
            w\<lparr>console := console w @ [(''[API_ORDERS_ID_PUT]'', BodySyntaxError)]\<rparr>)"
  using assms by (simp add: PUT_def PUT_try_def)

theorem malformed_body_witness:
  "parseInt10 (js ''7'') = Some 7
   \<and> status (fst (PUT example_safeParse no_faults (js ''7'') (Threw BodySyntaxError)
                    example_world)) = 500
   \<and> db (snd (PUT example_safeParse no_faults (js ''7'') (Threw BodySyntaxError)
                 example_world)) = db example_world
   \<and> trace (snd (PUT example_safeParse no_faults (js ''7'') (Threw BodySyntaxError)
                    example_world)) = []"
  using malformed_body_is_internal_error
    [where safeParse = example_safeParse and faults = no_faults and w = example_world,
     OF parse_7]
  by (simp add: parse_7 example_trace)

text \<open>
  The claim as stated, for every \<^verbatim>\<open>PUT\<close> whose body is not JSON, fails: the guard on
  the id comes before \<^verbatim>\<open>request.json()\<close>. With the id \<^verbatim>\<open>abc\<close> and a body that is not
  JSON the answer is 400 with the text of the invalid id, not 500, and nothing is
  logged.
\<close>

theorem malformed_body_invalid_id_counterexample:
  "parseInt10 (js ''abc'') = None
   \<and> status (fst (PUT example_safeParse no_faults (js ''abc'') (Threw BodySyntaxError)
                    example_world)) = 400
   \<and> status (fst (PUT example_safeParse no_faults (js ''abc'') (Threw BodySyntaxError)
                    example_world)) \<noteq> 500
   \<and> body (fst (PUT example_safeParse no_faults (js ''abc'') (Threw BodySyntaxError)
                  example_world)) = Text msg_invalid_id
   \<and> snd (PUT example_safeParse no_faults (js ''abc'') (Threw BodySyntaxError)
            example_world) = example_world"
  by (simp add: PUT_def PUT_try_def parse_abc)

subsection \<open>C4: a body that fails validation\<close>

text \<open>
  Claim C4. For a \<^verbatim>\<open>PUT\<close> whose body was parsed and fails validation with the issues
  \<open>errors\<close>: the answer is 400 with exactly these issues as its JSON body, and the
  world is as before: no statement was issued, no table changed.
\<close>

theorem invalid_payload_rejected_before_database:
  assumes "parseInt10 params_id = Some id'" and "safeParse body' = Inl errors"
  shows "PUT safeParse faults params_id (Returned body') w =
           (\<lparr>status = 400, body = Json_errors errors\<rparr>, w)"
  using assms by (simp add: PUT_def PUT_try_def)

theorem invalid_payload_witness:
  "parseInt10 (js ''7'') = Some 7
   \<and> example_safeParse example_bad_body = Inl [''customer_id'']
   \<and> PUT example_safeParse no_faults (js ''7'') (Returned example_bad_body) example_world =
       (\<lparr>status = 400, body = Json_errors [''customer_id'']\<rparr>, example_world)"
  using invalid_payload_rejected_before_database
    [where safeParse = example_safeParse and body' = example_bad_body
       and faults = no_faults and w = example_world, OF parse_7 example_bad_parse]
  by (simp add: parse_7 example_bad_parse)

subsection \<open>C5: an order that does not exist\<close>

text \<open>
  Claim C5. When the header query of \<^verbatim>\<open>GET\<close> runs and returns no row, the answer is
  404 and the header query is the only statement issued: the item, truck and driver
  queries are not.
\<close>

theorem missing_order_is_not_found:
  assumes "parseInt10 params_id = Some id'"
    and "\<not> faults (length (trace w))"
    and "select_order (db w) id' = []"
  shows "GET faults str2num params_id w =
           (\<lparr>status = 404, body = Text msg_not_found\<rparr>,
            w\<lparr>trace := trace w @ [OrderQuery id']\<rparr>)"
  using assms by (simp add: GET_def GET_try_def executeQuery_ok)

theorem missing_order_witness:
  "parseInt10 (js ''8'') = Some 8
   \<and> \<not> no_faults (length (trace example_world))
   \<and> select_order (db example_world) 8 = []
   \<and> GET no_faults example_str2num (js ''8'') example_world =
       (\<lparr>status = 404, body = Text msg_not_found\<rparr>, example_world\<lparr>trace := [OrderQuery 8]\<rparr>)"
proof -
  have f: "\<not> no_faults (length (trace example_world))" by (simp add: no_faults_def)
  show ?thesis
    using missing_order_is_not_found
      [where faults = no_faults and w = example_world and str2num = example_str2num,
       OF parse_8 f no_order_8]
    by (simp add: parse_8 no_order_8 example_trace no_faults_def)
qed

subsection \<open>C2: the invoice object\<close>

text \<open>
  What the code does: the invoice object is present exactly when both fields are
  truthy.
\<close>

lemma invoice_present_iff_truthy:
  "po_invoice (populatedOrder str2num order itemsResult trucksResult driversResult) \<noteq> None
     \<longleftrightarrow> truthy (o_invoice_series order) \<and> truthy (o_invoice_number order)"
  by (simp add: populatedOrder_def js_and_def)

text \<open>
  Claim C2 says that the invoice object is present exactly when series and number are
  both non-null. The code at an order with series \<^verbatim>\<open>A\<close> and number 0: the header row
  has both fields non-null, the answer is 200, and the invoice is \<^verbatim>\<open>null\<close>.
\<close>

theorem zero_invoice_number_gives_null_invoice:
  "map o_invoice_series (select_order (db zero_folio_world) 7) = [JStr (js ''A'')]
   \<and> map o_invoice_number (select_order (db zero_folio_world) 7) = [JNum (Finite 0)]
   \<and> status (fst (GET no_faults example_str2num (js ''7'') zero_folio_world
                    :: unit response \<times> world)) = 200
   \<and> map_option po_invoice
        (the_order (body (fst (GET no_faults example_str2num (js ''7'') zero_folio_world
                                :: unit response \<times> world)))) = Some None"
  by code_simp

subsection \<open>C7: numbers in the items\<close>

text \<open>
  Claim C7. In every answer of \<^verbatim>\<open>GET\<close> that carries an order, each element of
  \<open>items\<close> has a \<open>quantity\<close> and a \<open>price_per_unit\<close> of type number: they are
  \<^verbatim>\<open>Number\<close> of the cells of the corresponding row of the items query, whatever the
  query layer delivered there (a string, a number, null), row by row. The answer is the
  object that the handler hands to \<^verbatim>\<open>NextResponse.json\<close>.
\<close>

theorem item_numbers_coerced:
  assumes "GET faults str2num params_id w = (r, w')" and "body r = Json_order po"
  shows "(\<forall>x \<in> set (po_items po). is_number (it_quantity x) \<and> is_number (it_price_per_unit x))
       \<and> (\<exists>id'. parseInt10 params_id = Some id'
            \<and> map it_quantity (po_items po) =
                map (\<lambda>item. JNum (Number str2num (r_quantity item))) (select_items (db w) id')
            \<and> map it_price_per_unit (po_items po) =
                map (\<lambda>item. JNum (Number str2num (r_price_per_unit item)))
                  (select_items (db w) id'))"
  using assms
  by (auto simp: GET_def GET_try_def executeQuery_def await_def populatedOrder_def
      split: option.splits list.splits if_splits prod.splits outcome.splits)

theorem item_numbers_coerced_witness:
  "map r_quantity (select_items (db example_world) 7) = [JStr (js ''2.50'')]
   \<and> map it_quantity
        (po_items (the (the_order (body (fst (GET no_faults example_str2num (js ''7'')
           example_world :: unit response \<times> world))))))
       = [JNum (Finite (5 / 2))]
   \<and> map (\<lambda>x. is_number (it_quantity x) \<and> is_number (it_price_per_unit x))
        (po_items (the (the_order (body (fst (GET no_faults example_str2num (js ''7'')
           example_world :: unit response \<times> world))))))
       = [True]"
proof -
  let ?G = "GET no_faults example_str2num (js ''7'') example_world :: unit response \<times> world"
  let ?items = "po_items (the (the_order (body (fst ?G))))"
  have g: "?G = (fst ?G, snd ?G)" by simp
  have b: "body (fst ?G) = Json_order (the (the_order (body (fst ?G))))" by code_simp
  have c: "map r_quantity (select_items (db example_world) 7) = [JStr (js ''2.50'')]"
    by code_simp
  have d: "map it_quantity ?items = [JNum (Finite (5 / 2))]"
    by code_simp
  from d obtain x where x: "?items = [x]" by auto
  from item_numbers_coerced [OF g b] have
    "\<forall>x \<in> set ?items. is_number (it_quantity x) \<and> is_number (it_price_per_unit x)"
    by blast
  with x have "map (\<lambda>x. is_number (it_quantity x) \<and> is_number (it_price_per_unit x)) ?items
      = [True]"
    by simp
  with c d show ?thesis by blast
qed

end
